theory Spec2Isabelle
  imports Complex_Main
begin

section \<open>Serialized matrix factorizations: the model of \<open>matrix_io.py\<close>\<close>

text \<open>
  The module locates, loads, rescales, verifies and writes factorizations \<open>S = W @ H\<close>.
  Two conventions hold throughout this theory.
  \<^item> A Python \<open>float\<close> (and a float64 tensor entry) is modelled by the real number it
    denotes, and arithmetic on it is exact. Non-finite values appear only where the code
    can produce them from finite inputs: in the quotient computed by the scaler.
  \<^item> An exception is a value of type \<open>error\<close>; a function that can raise returns
    \<open>error + 'a\<close>, with \<open>Inl\<close> for the exception.
\<close>

subsection \<open>Exceptions\<close>

text \<open>
  Python's \<open>AssertionError\<close> carries which check failed: the two \<open>dtype\<close> assertions of
  \<open>verify_reconstruction\<close>, \<open>np.testing.assert_allclose\<close>, the length assertion of
  \<open>verify_and_write\<close> and \<open>assert lr_vector is None\<close> of \<open>get_prefix_sum_w_h\<close>.
  \<open>NotFoundError\<close> and \<open>InvalidArgumentError\<close> are TensorFlow's: reading a missing file,
  parsing bytes that are no tensor of the requested dtype, multiplying tensors of
  incompatible shape.
\<close>

datatype assertion = DtypeW | DtypeH | AllClose | LrLength | LrIsNone

datatype error =
    ValueError
  | NotImplementedError
  | AssertionError assertion
  | NotFoundError
  | InvalidArgumentError
  | IndexError

subsection \<open>Constants of the module\<close>

definition FACTORIZATION_ROOT :: string where
  "FACTORIZATION_ROOT = ''/tmp/matrix_factorizations''"

definition W_MATRIX_STRING :: string where
  "W_MATRIX_STRING = ''w_matrix_tensor_pb''"

definition H_MATRIX_STRING :: string where
  "H_MATRIX_STRING = ''h_matrix_tensor_pb''"

definition LR_VECTOR_STRING :: string where
  "LR_VECTOR_STRING = ''lr_vector_tensor_pb''"

definition PREFIX_ONLINE_HONAKER :: string where
  "PREFIX_ONLINE_HONAKER = ''prefix_online_honaker''"

definition PREFIX_FULL_HONAKER :: string where
  "PREFIX_FULL_HONAKER = ''prefix_full_honaker''"

definition PREFIX_OPT :: string where
  "PREFIX_OPT = ''prefix_opt''"

subsection \<open>Formatting integers and joining path segments\<close>

definition digit_char :: "nat \<Rightarrow> char" where
  "digit_char d = char_of (48 + d)"

definition digit_val :: "char \<Rightarrow> nat" where
  "digit_val c = of_char c - 48"

definition is_digit :: "char \<Rightarrow> bool" where
  "is_digit c = (48 \<le> (of_char c :: nat) \<and> (of_char c :: nat) \<le> 57)"

text \<open>The decimal digits of a natural number, most significant first.\<close>

fun str_nat :: "nat \<Rightarrow> string" where
  "str_nat n =
     (if n < 10 then [digit_char n] else str_nat (n div 10) @ [digit_char (n mod 10)])"

declare str_nat.simps [simp del]

text \<open>The format specification \<open>{n:d}\<close>: a minus sign for a negative integer, then its digits.\<close>

definition format_d :: "int \<Rightarrow> string" where
  "format_d n = (if n < 0 then CHR ''-'' # str_nat (nat (- n)) else str_nat (nat n))"

text \<open>\<open>'/'.join(args)\<close>.\<close>

fun join_path :: "string list \<Rightarrow> string" where
  "join_path [] = []"
| "join_path [a] = a"
| "join_path (a # b # rest) = a @ ''/'' @ join_path (b # rest)"

text \<open>
  \<open>get_matrix_path\<close>. The flag \<open>MATRIX_ROOT_PATH.value\<close> is read from process-wide
  state; here it is the parameter \<open>matrix_root\<close>, whose default is \<open>FACTORIZATION_ROOT\<close>.
\<close>

definition get_matrix_path :: "string \<Rightarrow> int \<Rightarrow> string \<Rightarrow> string" where
  "get_matrix_path matrix_root n mechanism_name =
     (let size_str = ''size='' @ format_d n
      in join_path [matrix_root, mechanism_name, size_str])"

subsection \<open>Momentum paths\<close>

text \<open>Rounding to the nearest integer, ties to the even neighbour.\<close>

definition round_half_even :: "real \<Rightarrow> int" where
  "round_half_even x =
     (let f = \<lfloor>x\<rfloor>; d = x - of_int f
      in if d < 1 / 2 then f
         else if 1 / 2 < d then f + 1
         else if even f then f else f + 1)"

text \<open>\<open>round(x, 2)\<close>.\<close>

definition py_round2 :: "real \<Rightarrow> real" where
  "py_round2 x = of_int (round_half_even (x * 100)) / 100"

text \<open>
  The format specification \<open>02.0f\<close>: no fractional digits, zero-padded to a minimum
  width of two characters; the sign of a negative value counts towards the width.
\<close>

definition format_02_0f :: "real \<Rightarrow> string" where
  "format_02_0f x =
     (let ds = str_nat (nat \<bar>round_half_even x\<bar>)
      in if x < 0 then CHR ''-'' # ds
         else replicate (2 - length ds) CHR ''0'' @ ds)"

definition get_momentum_path :: "string \<Rightarrow> int \<Rightarrow> real \<Rightarrow> error + string" where
  "get_momentum_path matrix_root n momentum =
     (if \<not> (0 \<le> momentum \<and> momentum \<le> 1) then Inl ValueError
      else if py_round2 momentum \<noteq> momentum then Inl ValueError
      else Inr (get_matrix_path matrix_root n (''momentum_0p'' @ format_02_0f (100 * momentum))))"

text \<open>
  \<open>re.search(r'momentum_0p(\d\d)', path)\<close>: the leftmost position at which the literal
  is followed by two digits; the result is the captured group.
\<close>

fun strip_prefix :: "string \<Rightarrow> string \<Rightarrow> string option" where
  "strip_prefix [] s = Some s"
| "strip_prefix (p # ps) [] = None"
| "strip_prefix (p # ps) (c # cs) = (if p = c then strip_prefix ps cs else None)"

definition match_momentum_here :: "string \<Rightarrow> string option" where
  "match_momentum_here s =
     (case strip_prefix ''momentum_0p'' s of
        None \<Rightarrow> None
      | Some rest \<Rightarrow>
          (case rest of
             d1 # d2 # _ \<Rightarrow> if is_digit d1 \<and> is_digit d2 then Some [d1, d2] else None
           | _ \<Rightarrow> None))"

fun search_momentum :: "string \<Rightarrow> string option" where
  "search_momentum [] = None"
| "search_momentum (c # cs) =
     (case match_momentum_here (c # cs) of
        Some g \<Rightarrow> Some g
      | None \<Rightarrow> search_momentum cs)"

text \<open>\<open>float(s)\<close> for a string of decimal digits.\<close>

definition nat_of_str :: "string \<Rightarrow> nat" where
  "nat_of_str s = foldl (\<lambda>a c. 10 * a + digit_val c) 0 s"

definition infer_momentum_from_path :: "string \<Rightarrow> real option" where
  "infer_momentum_from_path path =
     (case search_momentum path of
        Some g \<Rightarrow> Some (real (nat_of_str g) / 100)
      | None \<Rightarrow> None)"

subsection \<open>Tensors\<close>

text \<open>
  A tensor has a dtype and a shape. The module handles matrices (\<open>W\<close>, \<open>H\<close>, \<open>S\<close>) and
  a vector of learning rates, so tensors of rank one and two are modelled: \<open>Vec d xs\<close>
  has shape \<open>(length xs)\<close>, \<open>Mat d n rows\<close> has shape \<open>(length rows, n)\<close> and is
  well formed when every row has \<open>n\<close> entries.
\<close>

datatype dtype = Float64 | Float32 | Int32 | Int64

datatype 'a tensor = Vec dtype "'a list" | Mat dtype nat "'a list list"

fun dtype_of :: "'a tensor \<Rightarrow> dtype" where
  "dtype_of (Vec d xs) = d"
| "dtype_of (Mat d n rows) = d"

fun shape :: "'a tensor \<Rightarrow> nat list" where
  "shape (Vec d xs) = [length xs]"
| "shape (Mat d n rows) = [length rows, n]"


text \<open>\<open>len(t)\<close> is the first dimension; \<open>t.shape[1]\<close> raises on a vector.\<close>

fun py_len :: "'a tensor \<Rightarrow> nat" where
  "py_len (Vec d xs) = length xs"
| "py_len (Mat d n rows) = length rows"

fun shape_1 :: "'a tensor \<Rightarrow> error + nat" where
  "shape_1 (Vec d xs) = Inl IndexError"
| "shape_1 (Mat d n rows) = Inr n"

text \<open>
  The matrix product \<open>w @ h\<close> of TensorFlow: both operands of rank two, of one dtype,
  the column count of the left equal to the row count of the right.
\<close>

definition dot_col :: "real list \<Rightarrow> real list list \<Rightarrow> nat \<Rightarrow> real" where
  "dot_col r rows j = sum_list (map (\<lambda>i. r ! i * (rows ! i) ! j) [0..<length rows])"

fun matmul :: "real tensor \<Rightarrow> real tensor \<Rightarrow> error + real tensor" where
  "matmul (Mat d1 k rows1) (Mat d2 n rows2) =
     (if d1 \<noteq> d2 \<or> k \<noteq> length rows2 then Inl InvalidArgumentError
      else Inr (Mat d1 n (map (\<lambda>r. map (dot_col r rows2) [0..<n]) rows1)))"
| "matmul (Vec d xs) h = Inl InvalidArgumentError"
| "matmul (Mat d k rows) (Vec d' xs) = Inl InvalidArgumentError"

subsection \<open>Reconstruction verifier\<close>

text \<open>
  \<open>np.testing.assert_allclose(actual, desired, rtol, atol)\<close> requires equal shapes and,
  elementwise, \<open>|actual - desired| \<le> atol + rtol * |desired|\<close>.
\<close>

definition is_close :: "real \<Rightarrow> real \<Rightarrow> real \<Rightarrow> real \<Rightarrow> bool" where
  "is_close rtol atol a b = (\<bar>a - b\<bar> \<le> atol + rtol * \<bar>b\<bar>)"

fun all_close :: "real \<Rightarrow> real \<Rightarrow> real tensor \<Rightarrow> real tensor \<Rightarrow> bool" where
  "all_close rtol atol (Vec d xs) (Vec d' ys) = list_all2 (is_close rtol atol) xs ys"
| "all_close rtol atol (Mat d n rows) (Mat d' n' rows') =
     list_all2 (list_all2 (is_close rtol atol)) rows rows'"
| "all_close rtol atol (Vec d xs) (Mat d' n' rows') = False"
| "all_close rtol atol (Mat d n rows) (Vec d' ys) = False"

definition assert_allclose ::
    "real tensor \<Rightarrow> real tensor \<Rightarrow> real \<Rightarrow> real \<Rightarrow> error + unit" where
  "assert_allclose actual desired rtol atol =
     (if shape actual \<noteq> shape desired then Inl (AssertionError AllClose)
      else if all_close rtol atol actual desired then Inr ()
      else Inl (AssertionError AllClose))"

definition verify_reconstruction ::
    "real tensor \<Rightarrow> real tensor \<Rightarrow> real tensor \<Rightarrow> error + unit" where
  "verify_reconstruction w_matrix h_matrix s_matrix =
     (if dtype_of w_matrix \<noteq> Float64 then Inl (AssertionError DtypeW)
      else if dtype_of h_matrix \<noteq> Float64 then Inl (AssertionError DtypeH)
      else case matmul w_matrix h_matrix of
             Inl e \<Rightarrow> Inl e
           | Inr s_reconstructed \<Rightarrow>
               assert_allclose s_matrix s_reconstructed (1 / 1000000) (1 / 100000000))"

subsection \<open>Sensitivity scaler\<close>






subsection \<open>Blob store\<close>

text \<open>
  The store holds blobs under path names and knows which paths are directories.
  \<open>tf.io.serialize_tensor\<close> produces the bytes of a tensor; \<open>tf.io.parse_tensor\<close>
  fails on bytes that are no tensor or hold another dtype than requested.
  \<open>tf.io.write_file\<close> creates the directories above the file.
\<close>

datatype blob = TensorProto "real tensor" | Junk

record filesystem =
  files :: "string \<rightharpoonup> blob"
  dirs :: "string set"

definition serialize_tensor :: "real tensor \<Rightarrow> blob" where
  "serialize_tensor t = TensorProto t"

definition parse_tensor :: "blob \<Rightarrow> dtype \<Rightarrow> error + real tensor" where
  "parse_tensor b out_type =
     (case b of
        TensorProto t \<Rightarrow> if dtype_of t = out_type then Inr t else Inl InvalidArgumentError
      | Junk \<Rightarrow> Inl InvalidArgumentError)"

definition gfile_exists :: "filesystem \<Rightarrow> string \<Rightarrow> bool" where
  "gfile_exists fs p = (files fs p \<noteq> None \<or> p \<in> dirs fs)"

definition gfile_isdir :: "filesystem \<Rightarrow> string \<Rightarrow> bool" where
  "gfile_isdir fs p = (p \<in> dirs fs)"

definition read_file :: "filesystem \<Rightarrow> string \<Rightarrow> error + blob" where
  "read_file fs p = (case files fs p of None \<Rightarrow> Inl NotFoundError | Some b \<Rightarrow> Inr b)"

definition parent_dirs :: "string \<Rightarrow> string list" where
  "parent_dirs p = map (\<lambda>i. take i p) (filter (\<lambda>i. p ! i = CHR ''/'') [1..<length p])"

definition write_file :: "string \<Rightarrow> blob \<Rightarrow> filesystem \<Rightarrow> filesystem" where
  "write_file p b fs =
     fs\<lparr>files := (files fs)(p \<mapsto> b), dirs := dirs fs \<union> set (parent_dirs p)\<rparr>"

subsection \<open>Loading\<close>

definition load_w_h_and_maybe_lr ::
    "filesystem \<Rightarrow> string \<Rightarrow> error + (real tensor \<times> real tensor \<times> real tensor option)" where
  "load_w_h_and_maybe_lr fs path =
     (if \<not> (gfile_exists fs path \<and> gfile_isdir fs path) then Inl ValueError
      else case read_file fs (join_path [path, W_MATRIX_STRING]) of
        Inl e \<Rightarrow> Inl e
      | Inr wb \<Rightarrow>
      (case parse_tensor wb Float64 of
        Inl e \<Rightarrow> Inl e
      | Inr w_matrix \<Rightarrow>
      (case read_file fs (join_path [path, H_MATRIX_STRING]) of
        Inl e \<Rightarrow> Inl e
      | Inr hb \<Rightarrow>
      (case parse_tensor hb Float64 of
        Inl e \<Rightarrow> Inl e
      | Inr h_matrix \<Rightarrow>
      (let lr_file = join_path [path, LR_VECTOR_STRING]
       in if gfile_exists fs lr_file
          then (case read_file fs (join_path [path, LR_VECTOR_STRING]) of
                  Inl e \<Rightarrow> Inl e
                | Inr lb \<Rightarrow>
                    (case parse_tensor lb Float64 of
                       Inl e \<Rightarrow> Inl e
                     | Inr lr_tensor \<Rightarrow> Inr (w_matrix, h_matrix, Some lr_tensor)))
          else Inr (w_matrix, h_matrix, None))))))"

text \<open>The \<open>if\<close>/\<open>elif\<close> chain of \<open>get_prefix_sum_w_h\<close> that selects the path.\<close>

definition prefix_sum_path :: "string \<Rightarrow> int \<Rightarrow> string \<Rightarrow> error + string" where
  "prefix_sum_path matrix_root n aggregator_method =
     (if aggregator_method \<in> set [''opt_prefix_sum_matrix'', PREFIX_OPT]
        then Inr (get_matrix_path matrix_root n PREFIX_OPT)
      else if aggregator_method \<in> set [''streaming_honaker_matrix'', PREFIX_ONLINE_HONAKER]
        then Inr (get_matrix_path matrix_root n PREFIX_ONLINE_HONAKER)
      else if aggregator_method \<in> set [''full_honaker_matrix'', PREFIX_FULL_HONAKER]
        then Inr (get_matrix_path matrix_root n PREFIX_FULL_HONAKER)
      else Inl NotImplementedError)"


subsection \<open>Write pipeline\<close>

text \<open>
  \<open>verify_and_write\<close> returns what the call raises, if anything, together with the
  store it leaves behind.
\<close>

definition verify_and_write ::
    "real tensor \<Rightarrow> real tensor \<Rightarrow> real tensor \<Rightarrow> string \<Rightarrow> real tensor option \<Rightarrow>
     filesystem \<Rightarrow> (error + unit) \<times> filesystem" where
  "verify_and_write w_matrix h_matrix s_matrix output_dir lr_sched fs =
     (case verify_reconstruction w_matrix h_matrix s_matrix of
        Inl e \<Rightarrow> (Inl e, fs)
      | Inr u \<Rightarrow>
          (let fs1 = write_file (join_path [output_dir, W_MATRIX_STRING])
                       (serialize_tensor w_matrix) fs;
               fs2 = write_file (join_path [output_dir, H_MATRIX_STRING])
                       (serialize_tensor h_matrix) fs1
           in case lr_sched of
                None \<Rightarrow> (Inr (), fs2)
              | Some lr \<Rightarrow>
                  (case shape_1 h_matrix of
                     Inl e \<Rightarrow> (Inl e, fs2)
                   | Inr n \<Rightarrow>
                       if py_len lr \<noteq> n then (Inl (AssertionError LrLength), fs2)
                       else (Inr (),
                             write_file (join_path [output_dir, LR_VECTOR_STRING])
                               (serialize_tensor lr) fs2))))"

subsection \<open>Example inputs\<close>

text \<open>
  A two-by-two factorization \<open>S = W @ H\<close> with \<open>W\<close> the identity, a schedule of two
  learning rates, and the stores left by writing it under the path of \<open>prefix_opt\<close>
  for \<open>n = 2\<close>, with and without the schedule.
\<close>

definition empty_store :: filesystem where
  "empty_store = \<lparr>files = Map.empty, dirs = {}\<rparr>"

definition example_w :: "real tensor" where
  "example_w = Mat Float64 2 [[1, 0], [0, 1]]"

definition example_h :: "real tensor" where
  "example_h = Mat Float64 2 [[1, 2], [3, 4]]"




section \<open>Path resolver\<close>

subsection \<open>Decimal strings determine their number\<close>

lemma digit_val_digit_char: "d < 10 \<Longrightarrow> digit_val (digit_char d) = d"
  by (simp add: digit_val_def digit_char_def)

lemma is_digit_digit_char: "d < 10 \<Longrightarrow> is_digit (digit_char d)"
  by (simp add: is_digit_def digit_char_def)








subsection \<open>A string splits in one way at its last separator\<close>



lemma get_matrix_path_unfold:
  "get_matrix_path matrix_root n mech = matrix_root @ ''/'' @ mech @ ''/'' @ ''size='' @ format_d n"
  by (simp add: get_matrix_path_def)

lemma get_matrix_path_example:
  "get_matrix_path FACTORIZATION_ROOT 4 PREFIX_OPT = ''/tmp/matrix_factorizations/prefix_opt/size=4''"
  by code_simp



subsection \<open>Momentum paths\<close>

lemma digit_char_numerals:
  "digit_char 0 = CHR ''0''" "digit_char 1 = CHR ''1''" "digit_char 2 = CHR ''2''"
  "digit_char 3 = CHR ''3''" "digit_char 4 = CHR ''4''" "digit_char 5 = CHR ''5''"
  "digit_char 6 = CHR ''6''" "digit_char 7 = CHR ''7''" "digit_char 8 = CHR ''8''"
  "digit_char 9 = CHR ''9''" "digit_char (Suc 0) = CHR ''1''"
  by code_simp+

lemma round_half_even_of_int: "round_half_even (of_int k) = k"
  by (simp add: round_half_even_def)

lemma round_half_even_of_nat: "round_half_even (real k) = int k"
  using round_half_even_of_int [of "int k"] by simp

lemma format_02_0f_two_digits:
  assumes "k < 100"
  shows "format_02_0f (real k) = [digit_char (k div 10), digit_char (k mod 10)]"
proof (cases "k < 10")
  case True
  then show ?thesis
    by (simp add: format_02_0f_def round_half_even_of_nat str_nat.simps [of k]
        digit_char_numerals)
next
  case False
  with assms have "k div 10 < 10" by simp
  with False show ?thesis
    by (simp add: format_02_0f_def round_half_even_of_nat str_nat.simps [of k]
        str_nat.simps [of "k div 10"])
qed

lemma search_momentum_default_root:
  assumes "is_digit d1" and "is_digit d2"
  shows "search_momentum (''/tmp/matrix_factorizations/momentum_0p'' @ d1 # d2 # rest)
           = Some [d1, d2]"
  using assms by (simp add: match_momentum_here_def)

text \<open>
  The example of the specification: ten steps with momentum 0.25 are stored under the
  segment \<open>momentum_0p25\<close>, from which 0.25 is read back.
\<close>

lemma momentum_path_example:
  "get_momentum_path FACTORIZATION_ROOT 10 (25 / 100)
     = Inr ''/tmp/matrix_factorizations/momentum_0p25/size=10''
   \<and> infer_momentum_from_path ''/tmp/matrix_factorizations/momentum_0p25/size=10''
       = Some (25 / 100)"
  by code_simp

text \<open>
  Below one the two functions are inverse to each other: under the default root, the
  momentum \<open>k/100\<close> with \<open>k < 100\<close> is written as two digits and read back unchanged.
\<close>

lemma momentum_round_trip_below_one:
  assumes "k < 100"
  shows "\<exists>p. get_momentum_path FACTORIZATION_ROOT n (real k / 100) = Inr p
           \<and> infer_momentum_from_path p = Some (real k / 100)"
proof -
  let ?d1 = "digit_char (k div 10)" and ?d2 = "digit_char (k mod 10)"
  from assms have lt: "k div 10 < 10" "k mod 10 < 10" by simp_all
  have path: "get_momentum_path FACTORIZATION_ROOT n (real k / 100)
      = Inr (''/tmp/matrix_factorizations/momentum_0p'' @ ?d1 # ?d2 # ''/size='' @ format_d n)"
    using assms
    by (simp add: get_momentum_path_def py_round2_def round_half_even_of_nat
        format_02_0f_two_digits get_matrix_path_def FACTORIZATION_ROOT_def)
  have "search_momentum
          (''/tmp/matrix_factorizations/momentum_0p'' @ ?d1 # ?d2 # ''/size='' @ format_d n)
      = Some [?d1, ?d2]"
    using lt by (intro search_momentum_default_root is_digit_digit_char)
  moreover have "nat_of_str [?d1, ?d2] = k"
    using lt by (simp add: nat_of_str_def digit_val_digit_char)
  ultimately show ?thesis
    using path by (simp add: infer_momentum_from_path_def)
qed

text \<open>
  C1. The momentum read back from the path of a two-decimal momentum in \<open>[0, 1]\<close> should
  be that momentum. At the upper end of the accepted range it is not: momentum 1.0
  passes both checks of \<open>get_momentum_path\<close>, is formatted with three digits as
  \<open>momentum_0p100\<close>, and \<open>infer_momentum_from_path\<close> captures the first two of them
  and returns 0.1.
\<close>

theorem momentum_one_read_back_as_tenth:
  "get_momentum_path FACTORIZATION_ROOT 1 1
     = Inr ''/tmp/matrix_factorizations/momentum_0p100/size=1''
   \<and> infer_momentum_from_path ''/tmp/matrix_factorizations/momentum_0p100/size=1''
       = Some (1 / 10)
   \<and> infer_momentum_from_path ''/tmp/matrix_factorizations/momentum_0p100/size=1''
       \<noteq> Some 1"
proof -
  have "get_momentum_path FACTORIZATION_ROOT 1 1
          = Inr ''/tmp/matrix_factorizations/momentum_0p100/size=1''"
    by code_simp
  moreover have "infer_momentum_from_path ''/tmp/matrix_factorizations/momentum_0p100/size=1''
          = Some (1 / 10)"
    by (simp add: infer_momentum_from_path_def match_momentum_here_def is_digit_def
        nat_of_str_def digit_val_def)
  ultimately show ?thesis by simp
qed

text \<open>
  C6. \<open>get_momentum_path\<close> raises \<open>ValueError\<close>, for every \<open>n\<close> and every root, whenever
  the momentum lies outside \<open>[0, 1]\<close> or differs from its rounding to two decimals; in
  particular for the momenta 1.005, -0.1 and 1.5.
\<close>

theorem get_momentum_path_rejects:
  "(momentum < 0 \<or> 1 < momentum \<or> py_round2 momentum \<noteq> momentum
      \<longrightarrow> get_momentum_path matrix_root n momentum = Inl ValueError)
   \<and> get_momentum_path matrix_root n (1005 / 1000) = Inl ValueError
   \<and> get_momentum_path matrix_root n (- (1 / 10)) = Inl ValueError
   \<and> get_momentum_path matrix_root n (3 / 2) = Inl ValueError"
  by (auto simp add: get_momentum_path_def)

theorem get_momentum_path_rejects_three_eighths:
  "py_round2 (3 / 8) \<noteq> 3 / 8
   \<and> get_momentum_path FACTORIZATION_ROOT 10 (3 / 8) = Inl ValueError"
proof -
  have h: "py_round2 (3 / 8) \<noteq> 3 / 8"
    by (simp add: py_round2_def round_half_even_def)
  with conjunct1 [OF get_momentum_path_rejects [of "3 / 8" FACTORIZATION_ROOT 10]]
  show ?thesis by simp
qed

section \<open>Reconstruction verifier\<close>



lemma verify_example: "verify_reconstruction example_w example_h example_h = Inr ()"
  by code_simp

lemma verify_perturbed_example:
  "verify_reconstruction (Mat Float64 1 [[1]]) (Mat Float64 1 [[1]]) (Mat Float64 1 [[2]])
     = Inl (AssertionError AllClose)"
  by (simp add: verify_reconstruction_def assert_allclose_def is_close_def dot_col_def)

lemma verify_ok_matrix:
  assumes "verify_reconstruction w h s = Inr ()"
  obtains d n rows where "h = Mat d n rows"
  using assms
  by (cases w; cases h) (auto simp add: verify_reconstruction_def split: if_splits)




section \<open>Write pipeline\<close>

lemma write_file_files:
  "files (write_file p b fs) = (files fs)(p \<mapsto> b)"
  by (simp add: write_file_def)

lemma blob_paths_distinct:
  "join_path [d, W_MATRIX_STRING] \<noteq> join_path [d, H_MATRIX_STRING]"
  "join_path [d, W_MATRIX_STRING] \<noteq> join_path [d, LR_VECTOR_STRING]"
  "join_path [d, H_MATRIX_STRING] \<noteq> join_path [d, LR_VECTOR_STRING]"
  by (simp_all add: W_MATRIX_STRING_def H_MATRIX_STRING_def LR_VECTOR_STRING_def)

text \<open>
  C3. When the verification raises, \<open>verify_and_write\<close> raises the same exception and
  leaves the store as it found it, whatever the output directory and the learning-rate
  vector: in particular when \<open>W\<close> or \<open>H\<close> is not float64.
\<close>

theorem verify_and_write_failure_writes_nothing:
  "(verify_reconstruction w h s = Inl e
      \<longrightarrow> verify_and_write w h s output_dir lr_sched fs = (Inl e, fs))
   \<and> (dtype_of w \<noteq> Float64
      \<longrightarrow> verify_and_write w h s output_dir lr_sched fs = (Inl (AssertionError DtypeW), fs))
   \<and> (dtype_of w = Float64 \<and> dtype_of h \<noteq> Float64
      \<longrightarrow> verify_and_write w h s output_dir lr_sched fs = (Inl (AssertionError DtypeH), fs))"
  by (simp add: verify_and_write_def verify_reconstruction_def)

text \<open>
  The example of the specification: with one entry of \<open>S\<close> off by 1.0 nothing is written,
  and loading the directory afterwards fails.
\<close>

theorem verify_and_write_perturbed_example:
  "verify_reconstruction (Mat Float64 1 [[1]]) (Mat Float64 1 [[1]]) (Mat Float64 1 [[2]])
     = Inl (AssertionError AllClose)
   \<and> verify_and_write (Mat Float64 1 [[1]]) (Mat Float64 1 [[1]]) (Mat Float64 1 [[2]])
       ''/tmp/out'' None \<lparr>files = Map.empty, dirs = {}\<rparr>
     = (Inl (AssertionError AllClose), \<lparr>files = Map.empty, dirs = {}\<rparr>)
   \<and> load_w_h_and_maybe_lr \<lparr>files = Map.empty, dirs = {}\<rparr> ''/tmp/out'' = Inl ValueError
   \<and> dtype_of (Mat Float32 1 [[1 :: real]]) \<noteq> Float64
   \<and> verify_and_write (Mat Float32 1 [[1]]) (Mat Float64 1 [[1]]) (Mat Float64 1 [[1]])
       ''/tmp/out'' None \<lparr>files = Map.empty, dirs = {}\<rparr>
     = (Inl (AssertionError DtypeW), \<lparr>files = Map.empty, dirs = {}\<rparr>)
   \<and> verify_and_write (Mat Float64 1 [[1]]) (Mat Int32 1 [[1]]) (Mat Float64 1 [[1]])
       ''/tmp/out'' None \<lparr>files = Map.empty, dirs = {}\<rparr>
     = (Inl (AssertionError DtypeH), \<lparr>files = Map.empty, dirs = {}\<rparr>)"
proof -
  note h = verify_perturbed_example
  have l: "load_w_h_and_maybe_lr \<lparr>files = Map.empty, dirs = {}\<rparr> ''/tmp/out'' = Inl ValueError"
    by (simp add: load_w_h_and_maybe_lr_def gfile_exists_def gfile_isdir_def)
  note claim = verify_and_write_failure_writes_nothing
  from h l mp [OF conjunct1 [OF claim], OF h]
    conjunct1 [OF conjunct2 [OF claim [of "Mat Float32 1 [[1]]"]]]
    conjunct2 [OF conjunct2 [OF claim [of "Mat Float64 1 [[1]]" "Mat Int32 1 [[1]]"]]]
  show ?thesis by simp
qed

text \<open>
  C8. After a successful verification, a learning-rate vector whose length differs from
  the column count of \<open>H\<close> makes \<open>verify_and_write\<close> raise the assertion error of the
  length check.
\<close>

theorem verify_and_write_wrong_length_raises:
  assumes "verify_reconstruction w h s = Inr ()" and "py_len lr \<noteq> shape h ! 1"
  shows "fst (verify_and_write w h s output_dir (Some lr) fs) = Inl (AssertionError LrLength)"
proof -
  from assms(1) obtain d n rows where h: "h = Mat d n rows" by (rule verify_ok_matrix)
  with assms show ?thesis by (simp add: verify_and_write_def Let_def)
qed

theorem verify_and_write_wrong_length_example:
  "verify_reconstruction example_w example_h example_h = Inr ()
   \<and> py_len (Vec Float64 [1, 1, 1 :: real]) \<noteq> shape example_h ! 1
   \<and> fst (verify_and_write example_w example_h example_h ''/tmp/out''
            (Some (Vec Float64 [1, 1, 1])) empty_store)
       = Inl (AssertionError LrLength)"
proof -
  note v = verify_example
  have l: "py_len (Vec Float64 [1, 1, 1 :: real]) \<noteq> shape example_h ! 1"
    by (simp add: example_h_def)
  from v l verify_and_write_wrong_length_raises [OF v l] show ?thesis by simp
qed

text \<open>
  C9. The length check comes after the two mandatory writes. When the vector has the
  wrong length, the call raises with the blobs of \<open>W\<close> and \<open>H\<close> stored and the
  learning-rate blob untouched: the store is the one left by the two writes.
\<close>

theorem verify_and_write_wrong_length_partial_artifact:
  assumes "verify_reconstruction w h s = Inr ()" and "py_len lr \<noteq> shape h ! 1"
  shows "verify_and_write w h s output_dir (Some lr) fs
           = (Inl (AssertionError LrLength),
              write_file (join_path [output_dir, H_MATRIX_STRING]) (serialize_tensor h)
                (write_file (join_path [output_dir, W_MATRIX_STRING]) (serialize_tensor w) fs))
         \<and> files (snd (verify_and_write w h s output_dir (Some lr) fs))
              (join_path [output_dir, W_MATRIX_STRING]) = Some (serialize_tensor w)
         \<and> files (snd (verify_and_write w h s output_dir (Some lr) fs))
              (join_path [output_dir, H_MATRIX_STRING]) = Some (serialize_tensor h)
         \<and> files (snd (verify_and_write w h s output_dir (Some lr) fs))
              (join_path [output_dir, LR_VECTOR_STRING])
             = files fs (join_path [output_dir, LR_VECTOR_STRING])"
proof -
  from assms(1) obtain d n rows where h: "h = Mat d n rows" by (rule verify_ok_matrix)
  have res: "verify_and_write w h s output_dir (Some lr) fs
           = (Inl (AssertionError LrLength),
              write_file (join_path [output_dir, H_MATRIX_STRING]) (serialize_tensor h)
                (write_file (join_path [output_dir, W_MATRIX_STRING]) (serialize_tensor w) fs))"
    using assms h by (simp add: verify_and_write_def Let_def)
  show ?thesis
    unfolding res using blob_paths_distinct [of output_dir]
    by (simp add: write_file_files del: join_path.simps)
qed

theorem verify_and_write_partial_artifact_example:
  "verify_reconstruction example_w example_h example_h = Inr ()
   \<and> py_len (Vec Float64 [1, 1, 1 :: real]) \<noteq> shape example_h ! 1
   \<and> files (snd (verify_and_write example_w example_h example_h ''/tmp/out''
                   (Some (Vec Float64 [1, 1, 1])) empty_store))
        ''/tmp/out/w_matrix_tensor_pb'' = Some (TensorProto example_w)
   \<and> files (snd (verify_and_write example_w example_h example_h ''/tmp/out''
                   (Some (Vec Float64 [1, 1, 1])) empty_store))
        ''/tmp/out/h_matrix_tensor_pb'' = Some (TensorProto example_h)
   \<and> files (snd (verify_and_write example_w example_h example_h ''/tmp/out''
                   (Some (Vec Float64 [1, 1, 1])) empty_store))
        ''/tmp/out/lr_vector_tensor_pb'' = None"
proof -
  note v = verify_example
  have l: "py_len (Vec Float64 [1, 1, 1 :: real]) \<noteq> shape example_h ! 1"
    by (simp add: example_h_def)
  from v l verify_and_write_wrong_length_partial_artifact
             [OF v l, of "''/tmp/out''" empty_store]
  show ?thesis
    by (simp add: W_MATRIX_STRING_def H_MATRIX_STRING_def LR_VECTOR_STRING_def
        serialize_tensor_def write_file_files empty_store_def)
qed

section \<open>Loading prefix-sum factorizations\<close>


lemma legacy_alias_same_path:
  "prefix_sum_path matrix_root n ''opt_prefix_sum_matrix'' = prefix_sum_path matrix_root n PREFIX_OPT"
  by (simp add: prefix_sum_path_def)




section \<open>Sensitivity scaler\<close>





end
